theory Spec2Isabelle
  imports Complex_Main "HOL-Library.Word" "HOL-Library.Log_Nat"
begin

section \<open>JNI scalar types\<close>

text \<open>
  The bridge \<^verbatim>\<open>native_bridge/whisper_jni.cpp\<close> works on JNI scalars: \<^verbatim>\<open>jint\<close> is a
  32-bit two's complement integer, \<^verbatim>\<open>jbyte\<close> an 8-bit one, and \<^verbatim>\<open>size_t\<close> an
  unsigned integer of the platform's width \<open>w\<close> (32 on armeabi-v7a, 64 on arm64-v8a),
  kept as the type parameter \<open>'w\<close>. The C conversions the source writes are
  \<^item> \<^verbatim>\<open>(size_t)x\<close> for a \<^verbatim>\<open>jint x\<close>: \<open>scast x\<close>, the value of \<open>x\<close> modulo \<open>2 ^ w\<close>;
  \<^item> \<^verbatim>\<open>(jint)n\<close> for a \<^verbatim>\<open>size_t n\<close>: \<open>ucast n\<close>, the low 32 bits of \<open>n\<close>.
  Comparisons of \<^verbatim>\<open>size_t\<close> values are unsigned (\<open><\<close> on words), comparisons of
  \<^verbatim>\<open>jint\<close> values are signed (\<open><s\<close>, \<open>\<le>s\<close>).
\<close>

type_synonym jint = "32 word"
type_synonym jbyte = "8 word"
type_synonym jsize = "32 word"

section \<open>Input stream context: loading a model from a Java stream\<close>

text \<open>
  \<^verbatim>\<open>struct input_stream_context\<close>. The Java stream object is a value of an arbitrary
  type \<open>'s\<close>; the two method ids resolved by \<^verbatim>\<open>GetMethodID\<close> are the methods
  themselves. \<^verbatim>\<open>available()\<close> observes the stream and returns a \<^verbatim>\<open>jint\<close>;
  \<^verbatim>\<open>read(b, off, len)\<close> returns the count it reports, the byte array as it leaves it,
  and the stream after the call. The fields \<^verbatim>\<open>env\<close> and \<^verbatim>\<open>thiz\<close> carry no data of
  their own: the JNI functions reached through \<^verbatim>\<open>env\<close> are the HOL functions below.
\<close>

record (overloaded) ('s, 'w) input_stream_context =
  offset :: "'w word"
  input_stream :: 's
  mid_available :: "'s \<Rightarrow> jint"
  mid_read :: "'s \<Rightarrow> jbyte list \<Rightarrow> jint \<Rightarrow> jint \<Rightarrow> jint \<times> jbyte list \<times> 's"

text \<open>
  \<^verbatim>\<open>NewByteArray\<close> with a negative length does not give an array: the runtime aborts
  the call (\<^verbatim>\<open>negative array length\<close>). The model returns that as an error value
  carrying the length that was asked for.
\<close>

datatype jni_abort = NegativeArrayLength jint

text \<open>
  What one call of \<^verbatim>\<open>input_stream_read\<close> leaves behind: the \<^verbatim>\<open>size_t\<close> it returns,
  the bytes \<^verbatim>\<open>memcpy\<close> wrote to \<^verbatim>\<open>output\<close>, the arguments of the
  \<^verbatim>\<open>Partial read\<close> log line when it is printed, and the context after the call.
\<close>

record (overloaded) ('s, 'w) read_outcome =
  returned :: "'w word"
  output_bytes :: "jbyte list"
  partial_read_log :: "('w word \<times> jint \<times> jint) option"
  context_after :: "('s, 'w) input_stream_context"

definition input_stream_read ::
  "('s, 'w::len) input_stream_context \<Rightarrow> 'w word \<Rightarrow> jni_abort + ('s, 'w) read_outcome" where
  "input_stream_read is read_size =
     (let avail_size = mid_available is (input_stream is);
          size_to_copy = (if read_size < scast avail_size then ucast read_size else avail_size)
      in if size_to_copy <s 0 then Inl (NegativeArrayLength size_to_copy)
         else
           (let byte_array = replicate (unat size_to_copy) (0 :: jbyte);
                (n_read, byte_array_elements, stream') =
                   mid_read is (input_stream is) byte_array 0 size_to_copy
            in Inr \<lparr> returned = scast size_to_copy,
                     output_bytes = take (unat (scast size_to_copy :: 'w word)) byte_array_elements,
                     partial_read_log =
                       (if size_to_copy \<noteq> ucast read_size \<or> size_to_copy \<noteq> n_read
                        then Some (read_size, size_to_copy, n_read) else None),
                     context_after =
                       is \<lparr> offset := offset is + scast size_to_copy,
                            input_stream := stream' \<rparr> \<rparr>))"


text \<open>
  \<^verbatim>\<open>input_stream_eof\<close> and \<^verbatim>\<open>input_stream_close\<close> receive the context pointer and
  could write through it, so both return the context they leave.
\<close>

definition input_stream_eof ::
  "('s, 'w::len) input_stream_context \<Rightarrow> bool \<times> ('s, 'w) input_stream_context" where
  "input_stream_eof is =
     (let result = mid_available is (input_stream is) in (result \<le>s 0, is))"

definition input_stream_close ::
  "('s, 'w::len) input_stream_context \<Rightarrow> ('s, 'w) input_stream_context" where
  "input_stream_close is = is"

section \<open>Asset manager helpers: loading a model from an APK asset\<close>

text \<open>
  The NDK asset functions are not part of the bridge; they are parameters. An asset
  manager is a value of type \<open>'m\<close>, an open asset one of type \<open>'a\<close>, the Java
  \<^verbatim>\<open>AssetManager\<close> object one of type \<open>'j\<close>. A function that returns a pointer returns
  an \<open>option\<close>, \<open>None\<close> for \<^verbatim>\<open>nullptr\<close>. \<^verbatim>\<open>AAsset_getRemainingLength64\<close> observes the
  asset and returns an \<^verbatim>\<open>off64_t\<close>; \<^verbatim>\<open>AAsset_read\<close> returns a C \<^verbatim>\<open>int\<close>, the bytes it
  stored and the asset after the call.
\<close>

datatype asset_mode =
  AASSET_MODE_UNKNOWN | AASSET_MODE_RANDOM | AASSET_MODE_STREAMING | AASSET_MODE_BUFFER

record (overloaded) ('j, 'm, 'a, 'w) asset_ndk =
  AAssetManager_fromJava :: "'j \<Rightarrow> 'm option"
  AAssetManager_open :: "'m \<Rightarrow> string \<Rightarrow> asset_mode \<Rightarrow> 'a option"
  AAsset_read :: "'a \<Rightarrow> 'w word \<Rightarrow> 32 word \<times> jbyte list \<times> 'a"
  AAsset_getRemainingLength64 :: "'a \<Rightarrow> 64 word"
  AAsset_close :: "'a \<Rightarrow> 'a"

definition asset_read ::
  "('j, 'm, 'a, 'w::len) asset_ndk \<Rightarrow> 'a \<Rightarrow> 'w word \<Rightarrow> 'w word \<times> jbyte list \<times> 'a" where
  "asset_read ndk ctx read_size =
     (let (n, bytes, ctx') = AAsset_read ndk ctx read_size in (scast n, bytes, ctx'))"

definition asset_is_eof :: "('j, 'm, 'a, 'w::len) asset_ndk \<Rightarrow> 'a \<Rightarrow> bool \<times> 'a" where
  "asset_is_eof ndk ctx = (AAsset_getRemainingLength64 ndk ctx \<le>s 0, ctx)"

definition asset_close :: "('j, 'm, 'a, 'w::len) asset_ndk \<Rightarrow> 'a \<Rightarrow> 'a" where
  "asset_close ndk ctx = AAsset_close ndk ctx"

text \<open>
  \<^verbatim>\<open>struct whisper_model_loader\<close> of \<^verbatim>\<open>whisper.h\<close>: a context and three callbacks on it.
\<close>

record (overloaded) ('x, 'w) whisper_model_loader =
  loader_context :: 'x
  loader_read :: "'x \<Rightarrow> 'w word \<Rightarrow> 'w word \<times> jbyte list \<times> 'x"
  loader_eof :: "'x \<Rightarrow> bool \<times> 'x"
  loader_close :: "'x \<Rightarrow> 'x"

section \<open>Log lines\<close>

text \<open>
  \<^verbatim>\<open>LOGI\<close>, \<^verbatim>\<open>LOGW\<close> and \<^verbatim>\<open>LOGE\<close> print a format string with arguments at a
  priority. A log line of the model is the priority, the format string and the
  arguments as the source passes them. A \<^verbatim>\<open>float\<close> argument is a \<open>c_float\<close>: a
  finite value, an infinity or NaN.
\<close>

datatype c_float = Finite real | PosInf | NegInf | NaN

datatype log_arg = ArgInt int | ArgFloat c_float | ArgStr string

datatype log_priority = ANDROID_LOG_INFO | ANDROID_LOG_WARN | ANDROID_LOG_ERROR

type_synonym log_line = "log_priority \<times> string \<times> log_arg list"

definition LOGI :: "string \<Rightarrow> log_arg list \<Rightarrow> log_line" where
  "LOGI fmt args = (ANDROID_LOG_INFO, fmt, args)"

definition LOGW :: "string \<Rightarrow> log_arg list \<Rightarrow> log_line" where
  "LOGW fmt args = (ANDROID_LOG_WARN, fmt, args)"

definition LOGE :: "string \<Rightarrow> log_arg list \<Rightarrow> log_line" where
  "LOGE fmt args = (ANDROID_LOG_ERROR, fmt, args)"

section \<open>Context management\<close>

text \<open>
  The engine's initialisation entry points are parameters. What
  \<^verbatim>\<open>whisper_init_from_asset\<close> leaves behind is the context pointer it returns
  (\<open>None\<close> for \<^verbatim>\<open>nullptr\<close>), the lines it logged and the calls it made to the engine,
  each call recorded with the loader context it was given.
\<close>

datatype 'a init_call = Call_whisper_init_with_params 'a

record (overloaded) ('a, 'w, 'c, 'q) whisper_init_engine =
  whisper_context_default_params :: 'q
  whisper_init_with_params :: "('a, 'w) whisper_model_loader \<Rightarrow> 'q \<Rightarrow> 'c option"

record ('a, 'c) init_outcome =
  init_context :: "'c option"
  init_log :: "log_line list"
  init_calls :: "'a init_call list"

definition whisper_init_from_asset ::
  "('j, 'm, 'a, 'w::len) asset_ndk \<Rightarrow> ('a, 'w, 'c, 'q) whisper_init_engine \<Rightarrow>
     'j \<Rightarrow> string \<Rightarrow> ('a, 'c) init_outcome" where
  "whisper_init_from_asset ndk eng assetManager asset_path =
     (let log0 = [LOGI ''Loading model from asset: %s'' [ArgStr asset_path]] in
      case AAssetManager_fromJava ndk assetManager of
        None \<Rightarrow>
          \<lparr> init_context = None,
            init_log = log0 @ [LOGE ''Failed to get AssetManager from Java'' []],
            init_calls = [] \<rparr>
      | Some asset_manager \<Rightarrow>
          (case AAssetManager_open ndk asset_manager asset_path AASSET_MODE_STREAMING of
             None \<Rightarrow>
               \<lparr> init_context = None,
                 init_log = log0 @ [LOGW ''Failed to open asset: %s'' [ArgStr asset_path]],
                 init_calls = [] \<rparr>
           | Some asset \<Rightarrow>
               (let loader = \<lparr> loader_context = asset,
                                loader_read = asset_read ndk,
                                loader_eof = asset_is_eof ndk,
                                loader_close = asset_close ndk \<rparr>
                in \<lparr> init_context =
                        whisper_init_with_params eng loader (whisper_context_default_params eng),
                      init_log = log0,
                      init_calls = [Call_whisper_init_with_params asset] \<rparr>)))"

text \<open>
  The JNI entry point converts the Java string, calls \<^verbatim>\<open>whisper_init_from_asset\<close> and
  returns the pointer as a \<^verbatim>\<open>jlong\<close>; \<^verbatim>\<open>(jlong)nullptr\<close> is 0, the null handle, here
  \<open>None\<close>.
\<close>

definition initContextFromAsset ::
  "('j, 'm, 'a, 'w::len) asset_ndk \<Rightarrow> ('a, 'w, 'c, 'q) whisper_init_engine \<Rightarrow>
     'j \<Rightarrow> string \<Rightarrow> ('a, 'c) init_outcome" where
  "initContextFromAsset ndk eng assetManager asset_path_str =
     (let asset_path_chars = asset_path_str;
          outcome = whisper_init_from_asset ndk eng assetManager asset_path_chars
      in outcome)"


section \<open>Binary32 arithmetic\<close>

text \<open>
  The diagnostics of \<^verbatim>\<open>fullTranscribe\<close> compute in C \<^verbatim>\<open>float\<close>, IEEE 754 binary32 with
  rounding to nearest, ties to even. A finite binary32 value is an integer multiple of
  \<open>2 ^ -149\<close> with at most 24 significant bits and magnitude at most
  \<open>(2 ^ 24 - 1) * 2 ^ 104\<close>. A finite \<^verbatim>\<open>float\<close> is modelled by the real number it denotes;
  every operation computes the exact real result and rounds it.
\<close>

text \<open>The integer nearest to a real, the even one of two equally near.\<close>

definition round_half_even :: "real \<Rightarrow> int" where
  "round_half_even r =
     (let m = \<lfloor>r\<rfloor>; d = r - of_int m
      in if d < 1 / 2 then m else if 1 / 2 < d then m + 1 else if even m then m else m + 1)"

text \<open>
  A non-negative real given in units of \<open>2 ^ -149\<close> whose integer part has bit length
  \<open>b\<close> lies where the binary32 values are \<open>2 ^ (b - 24)\<close> units apart, and one unit
  apart below \<open>2 ^ 24\<close> (the subnormal numbers and the first binade of the normal
  ones). Rounding it to 24 significant bits rounds it to a multiple of that spacing.
\<close>

definition spacing_exponent :: "real \<Rightarrow> nat" where
  "spacing_exponent r = nat (max 0 (bitlen \<lfloor>r\<rfloor> - 24))"

definition round_units :: "real \<Rightarrow> int" where
  "round_units r = round_half_even (r / 2 ^ spacing_exponent r) * 2 ^ spacing_exponent r"

text \<open>Rounding to binary32 with the exponent unbounded above.\<close>

definition round_binary32 :: "real \<Rightarrow> real" where
  "round_binary32 x = sgn x * of_int (round_units (\<bar>x\<bar> * 2 ^ 149)) / 2 ^ 149"

definition binary32_max :: real where
  "binary32_max = (2 ^ 24 - 1) * 2 ^ 104"

text \<open>The result of an operation whose exact value is \<open>x\<close>: it overflows to an infinity.\<close>

definition float_round :: "real \<Rightarrow> c_float" where
  "float_round x =
     (let y = round_binary32 x
      in if binary32_max < y then PosInf else if y < - binary32_max then NegInf else Finite y)"

text \<open>
  The conversion of a C \<^verbatim>\<open>int\<close> to \<^verbatim>\<open>float\<close>; the result is finite, an \<^verbatim>\<open>int\<close> being
  below \<open>2 ^ 31\<close> in magnitude.
\<close>

definition float_of_int :: "int \<Rightarrow> real" where
  "float_of_int k = round_binary32 (of_int k)"

text \<open>\<^verbatim>\<open>a + b\<close> for a float \<^verbatim>\<open>a\<close> and a finite float \<^verbatim>\<open>b\<close>.\<close>

fun float_add :: "c_float \<Rightarrow> real \<Rightarrow> c_float" where
  "float_add (Finite a) b = float_round (a + b)"
| "float_add PosInf b = PosInf"
| "float_add NegInf b = NegInf"
| "float_add NaN b = NaN"

text \<open>
  \<^verbatim>\<open>a / b\<close> for a float \<^verbatim>\<open>a\<close> and a finite float \<^verbatim>\<open>b\<close> that is not negative (here a
  converted array length or a positive constant, so a zero divisor is \<open>+0\<close>).
\<close>

fun float_div :: "c_float \<Rightarrow> real \<Rightarrow> c_float" where
  "float_div (Finite x) y =
     (if y = 0 then (if x = 0 then NaN else if 0 < x then PosInf else NegInf)
      else float_round (x / y))"
| "float_div PosInf y = PosInf"
| "float_div NegInf y = NegInf"
| "float_div NaN y = NaN"

text \<open>\<^verbatim>\<open>a < b\<close> for a float \<^verbatim>\<open>a\<close> and a finite float \<^verbatim>\<open>b\<close>: false when \<^verbatim>\<open>a\<close> is NaN.\<close>

fun float_less :: "c_float \<Rightarrow> real \<Rightarrow> bool" where
  "float_less (Finite a) b = (a < b)"
| "float_less NegInf b = True"
| "float_less PosInf b = False"
| "float_less NaN b = False"

section \<open>Transcription\<close>

text \<open>
  A \<^verbatim>\<open>jfloat\<close> sample is modelled by the real number it denotes; samples that are NaN
  or infinite are outside this model. Comparisons of finite floats and the negation
  of one are exact. The float literals \<^verbatim>\<open>16000.0f\<close> and \<^verbatim>\<open>100.0f\<close> are binary32 values;
  \<^verbatim>\<open>0.001f\<close> is the binary32 value nearest to 0.001. A float literal that is only
  stored in the parameter set (\<^verbatim>\<open>2.8f\<close>) is modelled by the decimal it is written as.
\<close>

type_synonym jfloat = real

text \<open>
  The local variables of the diagnostic loop of \<^verbatim>\<open>fullTranscribe\<close>. \<^verbatim>\<open>non_zero\<close> is a C
  \<^verbatim>\<open>int\<close> that counts at most the length of a Java array, so it never wraps.
\<close>

record audio_stats =
  min_val :: real
  max_val :: real
  sum_abs :: c_float
  non_zero :: int

text \<open>One iteration of the loop, on the sample \<^verbatim>\<open>v = audio_data_arr[i]\<close>.\<close>

definition analyze_sample :: "audio_stats \<Rightarrow> jfloat \<Rightarrow> audio_stats" where
  "analyze_sample st v =
     \<lparr> min_val = (if v < min_val st then v else min_val st),
       max_val = (if v > max_val st then v else max_val st),
       sum_abs = float_add (sum_abs st) (if v \<ge> 0 then v else - v),
       non_zero = (if v \<noteq> 0 then non_zero st + 1 else non_zero st) \<rparr>"

text \<open>The loop over \<^verbatim>\<open>i = 0 .. audio_data_length - 1\<close>, from the initial values.\<close>

definition analyze_audio :: "jfloat list \<Rightarrow> audio_stats" where
  "analyze_audio audio_data_arr =
     foldl analyze_sample
       \<lparr> min_val = 0, max_val = 0, sum_abs = Finite 0, non_zero = 0 \<rparr> audio_data_arr"

text \<open>
  \<^verbatim>\<open>struct whisper_full_params\<close> of \<^verbatim>\<open>whisper.h\<close>, with the fields the bridge assigns.
  The engine's defaults are a record scheme, so whatever other fields the engine's
  structure has are carried along unchanged.
\<close>

datatype whisper_sampling_strategy = WHISPER_SAMPLING_GREEDY | WHISPER_SAMPLING_BEAM_SEARCH

record whisper_full_params =
  strategy :: whisper_sampling_strategy
  n_threads :: jint
  offset_ms :: jint
  translate :: bool
  no_context :: bool
  single_segment :: bool
  print_special :: bool
  print_progress :: bool
  print_realtime :: bool
  print_timestamps :: bool
  language :: string
  entropy_thold :: real
  logprob_thold :: real
  no_speech_thold :: real

text \<open>
  The engine's entry points used by \<^verbatim>\<open>fullTranscribe\<close> are parameters, working on an
  engine context of type \<open>'c\<close>. \<^verbatim>\<open>whisper_full\<close> takes the samples through a
  \<^verbatim>\<open>const float *\<close>: it reads them and returns a status and the context it leaves.
\<close>

record ('c, 'z) whisper_engine =
  whisper_full_default_params :: "whisper_sampling_strategy \<Rightarrow> 'z whisper_full_params_scheme"
  whisper_reset_timings :: "'c \<Rightarrow> 'c"
  whisper_full :: "'c \<Rightarrow> 'z whisper_full_params_scheme \<Rightarrow> jfloat list \<Rightarrow> int \<Rightarrow> int \<times> 'c"
  whisper_full_n_segments :: "'c \<Rightarrow> int"
  whisper_full_get_segment_text :: "'c \<Rightarrow> int \<Rightarrow> string"
  whisper_print_timings :: "'c \<Rightarrow> 'c"

text \<open>The calls \<^verbatim>\<open>fullTranscribe\<close> makes to the engine, with their arguments.\<close>

datatype 'z engine_call =
    Call_whisper_reset_timings
  | Call_whisper_full "'z whisper_full_params_scheme" "jfloat list" int
  | Call_whisper_full_n_segments
  | Call_whisper_full_get_segment_text int
  | Call_whisper_print_timings

text \<open>
  \<^verbatim>\<open>GetFloatArrayElements\<close> gives the native side the elements of the Java array, either
  the array's own storage or a copy of it: the choice is the runtime's
  (\<^verbatim>\<open>isCopy\<close>). \<^verbatim>\<open>ReleaseFloatArrayElements\<close> gives the array back. With a copy, mode 0
  copies the elements back and frees the copy, \<^verbatim>\<open>JNI_COMMIT\<close> copies them back,
  \<^verbatim>\<open>JNI_ABORT\<close> frees the copy without copying back. Without a copy the elements are
  the array. The result is the Java array after the release.
\<close>

datatype release_mode = JNI_COPY_BACK_AND_FREE | JNI_COMMIT | JNI_ABORT

definition GetFloatArrayElements :: "jfloat list \<Rightarrow> jfloat list" where
  "GetFloatArrayElements array = array"

definition ReleaseFloatArrayElements ::
  "bool \<Rightarrow> jfloat list \<Rightarrow> jfloat list \<Rightarrow> release_mode \<Rightarrow> jfloat list" where
  "ReleaseFloatArrayElements is_copy array elems mode =
     (if is_copy then (if mode = JNI_ABORT then array else elems) else elems)"

text \<open>
  What one call of \<^verbatim>\<open>fullTranscribe\<close> leaves behind: the lines it logged, the calls it
  made to the engine, the engine context and the caller's Java array.
\<close>

record ('c, 'z) transcribe_outcome =
  ft_log :: "log_line list"
  ft_calls :: "'z engine_call list"
  ft_context :: 'c
  ft_audio_data :: "jfloat list"

definition fullTranscribe ::
  "bool \<Rightarrow> ('c, 'z) whisper_engine \<Rightarrow> 'c \<Rightarrow> jint \<Rightarrow> jfloat list \<Rightarrow> ('c, 'z) transcribe_outcome" where
  "fullTranscribe is_copy eng context num_threads audio_data =
     (let audio_data_arr = GetFloatArrayElements audio_data;
          audio_data_length = int (length audio_data);
          st = analyze_audio audio_data_arr;
          avg_abs = float_div (sum_abs st) (float_of_int audio_data_length);
          log_analysis =
            [LOGI ''Audio data analysis:'' [],
             LOGI ''  Samples: %d (%.2fs)''
               [ArgInt audio_data_length,
                ArgFloat (float_div (Finite (float_of_int audio_data_length)) 16000)],
             LOGI ''  Range: [%.6f, %.6f]''
               [ArgFloat (Finite (min_val st)), ArgFloat (Finite (max_val st))],
             LOGI ''  Avg absolute: %.6f'' [ArgFloat avg_abs],
             LOGI ''  Non-zero: %d (%.1f%%)''
               [ArgInt (non_zero st),
                ArgFloat (float_div (float_round (float_of_int (non_zero st) * 100))
                            (float_of_int audio_data_length))]];
          log_silent =
            (if float_less avg_abs (round_binary32 0.001)
             then [LOGW ''Audio appears silent! avg_abs=%.6f'' [ArgFloat avg_abs]] else []);
          params = (whisper_full_default_params eng WHISPER_SAMPLING_GREEDY)
            \<lparr> print_realtime := False,
              print_progress := False,
              print_timestamps := True,
              print_special := False,
              translate := False,
              language := ''en'',
              n_threads := num_threads,
              offset_ms := 0,
              no_context := True,
              single_segment := False,
              entropy_thold := 2.8,
              logprob_thold := - 1.5,
              no_speech_thold := 0.3 \<rparr>;
          context1 = whisper_reset_timings eng context;
          log_start = [LOGI ''Starting transcription with %d threads'' [ArgInt (sint num_threads)]];
          (status, context2) = whisper_full eng context1 params audio_data_arr audio_data_length;
          calls = [Call_whisper_reset_timings, Call_whisper_full params audio_data_arr audio_data_length];
          released = ReleaseFloatArrayElements is_copy audio_data audio_data_arr JNI_ABORT
      in if status = 0
         then
           (let n_segments = whisper_full_n_segments eng context2;
                shown = [0 ..< nat (min n_segments 5)]
            in \<lparr> ft_log = log_analysis @ log_silent @ log_start
                     @ [LOGI ''Transcription complete: %d segments'' [ArgInt n_segments]]
                     @ map (\<lambda>i. LOGI ''  Segment %d: %s''
                              [ArgInt (int i), ArgStr (whisper_full_get_segment_text eng context2 (int i))])
                         shown,
                  ft_calls = calls @ [Call_whisper_full_n_segments]
                     @ map (\<lambda>i. Call_whisper_full_get_segment_text (int i)) shown
                     @ [Call_whisper_print_timings],
                  ft_context = whisper_print_timings eng context2,
                  ft_audio_data = released \<rparr>)
         else
           \<lparr> ft_log = log_analysis @ log_silent @ log_start
                 @ [LOGE ''Failed to run transcription'' []],
             ft_calls = calls,
             ft_context = context2,
             ft_audio_data = released \<rparr>)"

text \<open>The parameter sets given to \<^verbatim>\<open>whisper_full\<close> in a list of engine calls, in order.\<close>

fun full_params_of :: "'z engine_call list \<Rightarrow> 'z whisper_full_params_scheme list" where
  "full_params_of [] = []"
| "full_params_of (Call_whisper_full p xs n # cs) = p # full_params_of cs"
| "full_params_of (c # cs) = full_params_of cs"

text \<open>The sample buffers given to \<^verbatim>\<open>whisper_full\<close> in a list of engine calls, in order.\<close>

fun full_samples_of :: "'z engine_call list \<Rightarrow> (jfloat list \<times> int) list" where
  "full_samples_of [] = []"
| "full_samples_of (Call_whisper_full p xs n # cs) = (xs, n) # full_samples_of cs"
| "full_samples_of (c # cs) = full_samples_of cs"


section \<open>The specification's quantities\<close>

text \<open>
  The specification's clamp for a stream read, \<open>min(requested_size, available)\<close>, on
  the mathematical values of the request and of what \<^verbatim>\<open>available()\<close> reported.
\<close>

definition spec_clamped_size :: "'w::len word \<Rightarrow> jint \<Rightarrow> int" where
  "spec_clamped_size requested_size available = min (uint requested_size) (sint available)"

text \<open>The specification's mean absolute amplitude of a buffer.\<close>

definition spec_mean_abs_amplitude :: "real list \<Rightarrow> real" where
  "spec_mean_abs_amplitude samples = (\<Sum>x\<leftarrow>samples. \<bar>x\<bar>) / real (length samples)"

text \<open>
  The mean absolute amplitude as binary32 arithmetic gives it: the absolute values
  summed from the left, each sum rounded, and the result divided by the length
  converted to \<^verbatim>\<open>float\<close>.
\<close>

definition binary32_mean_abs_amplitude :: "real list \<Rightarrow> c_float" where
  "binary32_mean_abs_amplitude samples =
     float_div (foldl float_add (Finite 0) (map abs samples)) (float_of_int (int (length samples)))"

section \<open>Example collaborators\<close>

text \<open>
  A stream on a 64-bit platform that has twelve bytes pending and hands over three
  bytes per call of \<^verbatim>\<open>read\<close>, whatever length is asked for.
\<close>

definition trickle_stream :: "(jbyte list, 64) input_stream_context" where
  "trickle_stream =
     \<lparr> offset = 100,
       input_stream = [1, 2, 3, 4, 5, 6, 7, 8, 9, 10, 11, 12],
       mid_available = (\<lambda>s. of_nat (length s)),
       mid_read = (\<lambda>s b off len. (3, take 3 s @ drop 3 b, drop 3 s)) \<rparr>"

text \<open>
  A stream on a 64-bit platform whose \<^verbatim>\<open>available()\<close> reports -1 and whose
  \<^verbatim>\<open>read\<close> reports end of stream and stores nothing.
\<close>

definition negative_stream :: "(unit, 64) input_stream_context" where
  "negative_stream =
     \<lparr> offset = 0,
       input_stream = (),
       mid_available = (\<lambda>s. - 1),
       mid_read = (\<lambda>s b off len. (- 1, b, s)) \<rparr>"

text \<open>
  An asset manager that is reachable only from the Java object \<open>True\<close> and holds one
  asset of 1000 bytes, an open asset being the number of bytes already read.
\<close>

definition example_ndk :: "(bool, unit, nat, 64) asset_ndk" where
  "example_ndk =
     \<lparr> AAssetManager_fromJava = (\<lambda>j. if j then Some () else None),
       AAssetManager_open = (\<lambda>m path mode. if path = ''models/ggml-tiny.bin'' then Some 0 else None),
       AAsset_read = (\<lambda>a n. (0, [], a)),
       AAsset_getRemainingLength64 = (\<lambda>a. 1000 - of_nat a),
       AAsset_close = (\<lambda>a. a) \<rparr>"

definition example_init_engine :: "(nat, 64, nat, unit) whisper_init_engine" where
  "example_init_engine =
     \<lparr> whisper_context_default_params = (),
       whisper_init_with_params = (\<lambda>loader q. Some (loader_context loader)) \<rparr>"

text \<open>
  An engine whose context counts the transcriptions run, whose defaults differ from
  every value the bridge assigns, and which reports one segment.
\<close>

definition example_engine :: "(nat, unit) whisper_engine" where
  "example_engine =
     \<lparr> whisper_full_default_params =
         (\<lambda>s. \<lparr> strategy = s, n_threads = 1, offset_ms = 7, translate = True,
                no_context = False, single_segment = True, print_special = True,
                print_progress = True, print_realtime = True, print_timestamps = False,
                language = ''auto'', entropy_thold = 2.4, logprob_thold = - 1.0,
                no_speech_thold = 0.6 \<rparr>),
       whisper_reset_timings = (\<lambda>c. c),
       whisper_full = (\<lambda>c p xs n. (0, Suc c)),
       whisper_full_n_segments = (\<lambda>c. 1),
       whisper_full_get_segment_text = (\<lambda>c i. ''hello''),
       whisper_print_timings = (\<lambda>c. c) \<rparr>"

text \<open>
  An engine with the same defaults whose context is the list of what \<^verbatim>\<open>whisper_full\<close>
  received so far: the parameter set, the samples and the sample count of each call.
\<close>

definition recording_engine ::
  "((whisper_full_params \<times> jfloat list \<times> int) list, unit) whisper_engine" where
  "recording_engine =
     \<lparr> whisper_full_default_params =
         (\<lambda>s. \<lparr> strategy = s, n_threads = 1, offset_ms = 7, translate = True,
                no_context = False, single_segment = True, print_special = True,
                print_progress = True, print_realtime = True, print_timestamps = False,
                language = ''auto'', entropy_thold = 2.4, logprob_thold = - 1.0,
                no_speech_thold = 0.6 \<rparr>),
       whisper_reset_timings = (\<lambda>c. c),
       whisper_full = (\<lambda>c p xs n. (0, c @ [(p, xs, n)])),
       whisper_full_n_segments = (\<lambda>c. 1),
       whisper_full_get_segment_text = (\<lambda>c i. ''hello''),
       whisper_print_timings = (\<lambda>c. c) \<rparr>"

section \<open>Conversions between \<^verbatim>\<open>jint\<close> and \<^verbatim>\<open>size_t\<close>\<close>

lemma uint_scast_mod:
  "uint (scast a :: 'w::len word) = sint a mod 2 ^ LENGTH('w)"
  by (subst scast_eq) (rule uint_word_of_int)

lemma pow31_less:
  assumes "32 \<le> LENGTH('w::len)"
  shows "(2::int) ^ 31 < 2 ^ LENGTH('w)"
proof -
  have "(31::nat) < LENGTH('w)" using assms by simp
  then show ?thesis by (rule power_strict_increasing) simp
qed


lemma uint_scast_nonneg:
  fixes a :: jint
  assumes "0 \<le> sint a" and "32 \<le> LENGTH('w::len)"
  shows "uint (scast a :: 'w word) = sint a"
proof -
  have "sint a < 2 ^ 31" using sint_lt [of a] by simp
  with pow31_less [OF assms(2)] have "sint a < 2 ^ LENGTH('w)" by linarith
  with assms(1) show ?thesis unfolding uint_scast_mod by (rule mod_pos_pos_trivial)
qed


lemma sint_ucast_small:
  fixes r :: "'w::len word"
  assumes "uint r < 2 ^ 31"
  shows "sint (ucast r :: jint) = uint r"
proof -
  have "sint (ucast r :: jint) = signed_take_bit 31 (uint r)"
    by (simp add: signed_ucast_eq)
  also have "\<dots> = uint r"
  proof (rule signed_take_bit_int_eq_self)
    have "- (2 ^ 31) \<le> (0::int)" by simp
    also have "0 \<le> uint r" by simp
    finally show "- (2 ^ 31) \<le> uint r" .
    show "uint r < 2 ^ 31" by (rule assms)
  qed
  finally show ?thesis .
qed

section \<open>The stream read callback\<close>

text \<open>The clamp of \<^verbatim>\<open>input_stream_read\<close> when \<^verbatim>\<open>available()\<close> reported a non-negative value.\<close>

lemma size_to_copy_nonneg:
  fixes read_size :: "'w::len word" and avail_size :: jint
  assumes nonneg: "0 \<le> sint avail_size" and wide: "32 \<le> LENGTH('w)"
  shows "sint (if read_size < scast avail_size then ucast read_size else avail_size)
           = spec_clamped_size read_size avail_size"
proof -
  have av: "uint (scast avail_size :: 'w word) = sint avail_size"
    using nonneg wide by (rule uint_scast_nonneg)
  show ?thesis
  proof (cases "read_size < scast avail_size")
    case True
    then have lt: "uint read_size < sint avail_size"
      using av by (simp add: word_less_def)
    have "sint avail_size < 2 ^ 31" using sint_lt [of avail_size] by simp
    with lt have "uint read_size < 2 ^ 31" by linarith
    then have "sint (ucast read_size :: jint) = uint read_size" by (rule sint_ucast_small)
    with True lt show ?thesis by (simp add: spec_clamped_size_def)
  next
    case False
    then have "sint avail_size \<le> uint read_size"
      using av by (simp add: word_less_def)
    with False show ?thesis by (simp add: spec_clamped_size_def)
  qed
qed

lemma spec_clamped_size_nonneg:
  "0 \<le> sint avail_size \<Longrightarrow> 0 \<le> spec_clamped_size read_size avail_size"
  by (simp add: spec_clamped_size_def)

text \<open>
  What a call leaves when the clamped size is not negative, for a given answer of the
  stream's \<^verbatim>\<open>read\<close>.
\<close>

lemma input_stream_read_outcome:
  fixes "is" :: "('s, 'w::len) input_stream_context"
  assumes "0 \<le> sint (if read_size < scast (mid_available is (input_stream is))
                        then ucast read_size else mid_available is (input_stream is))"
    and "mid_read is (input_stream is)
           (replicate (unat (if read_size < scast (mid_available is (input_stream is))
                        then ucast read_size else mid_available is (input_stream is))) 0) 0
           (if read_size < scast (mid_available is (input_stream is))
                        then ucast read_size else mid_available is (input_stream is))
         = (n_read, bs, s')"
  shows "\<exists>r. input_stream_read is read_size = Inr r
           \<and> returned r = scast (if read_size < scast (mid_available is (input_stream is))
                        then ucast read_size else mid_available is (input_stream is))
           \<and> offset (context_after r) = offset is + returned r
           \<and> input_stream (context_after r) = s'
           \<and> output_bytes r = take (unat (returned r)) bs
           \<and> partial_read_log r =
               (if (if read_size < scast (mid_available is (input_stream is))
                        then ucast read_size else mid_available is (input_stream is)) \<noteq> ucast read_size
                   \<or> (if read_size < scast (mid_available is (input_stream is))
                        then ucast read_size else mid_available is (input_stream is)) \<noteq> n_read
                then Some (read_size, (if read_size < scast (mid_available is (input_stream is))
                        then ucast read_size else mid_available is (input_stream is)), n_read)
                else None)"
proof -
  let ?stc = "if read_size < scast (mid_available is (input_stream is))
              then ucast read_size else mid_available is (input_stream is) :: jint"
  have nn: "\<not> ?stc <s 0" using assms(1) by (simp add: word_sless_alt)
  show ?thesis
    using nn assms(2) unfolding input_stream_read_def Let_def by simp
qed

text \<open>
  Claim C9. For every call of the stream read callback where \<^verbatim>\<open>available()\<close> reports a
  non-negative value (on a platform whose \<^verbatim>\<open>size_t\<close> has at least 32 bits), the call
  asks the stream's \<^verbatim>\<open>read\<close> for \<open>min(requested_size, available)\<close> bytes and, whatever
  count \<^verbatim>\<open>read\<close> reports, its return value and the amount by which the stream offset
  advances both equal that clamped size; a count below it only makes the call log the
  partial read.
\<close>

theorem input_stream_read_returns_clamped_size:
  fixes "is" :: "('s, 'w::len) input_stream_context"
  assumes nonneg: "0 \<le> sint (mid_available is (input_stream is))"
    and wide: "32 \<le> LENGTH('w)"
  shows "\<exists>r n_read bs s'.
           mid_read is (input_stream is)
             (replicate (nat (spec_clamped_size read_size (mid_available is (input_stream is)))) 0) 0
             (word_of_int (spec_clamped_size read_size (mid_available is (input_stream is))))
             = (n_read, bs, s')
           \<and> input_stream_read is read_size = Inr r
           \<and> uint (returned r) = spec_clamped_size read_size (mid_available is (input_stream is))
           \<and> offset (context_after r) = offset is + returned r
           \<and> (sint n_read < spec_clamped_size read_size (mid_available is (input_stream is)) \<longrightarrow>
                partial_read_log r
                  = Some (read_size,
                      word_of_int (spec_clamped_size read_size (mid_available is (input_stream is))),
                      n_read))"
proof -
  let ?avail = "mid_available is (input_stream is)"
  let ?c = "spec_clamped_size read_size ?avail"
  define stc :: jint
    where "stc = (if read_size < scast ?avail then ucast read_size else ?avail)"
  have s: "sint stc = ?c"
    unfolding stc_def using nonneg wide by (rule size_to_copy_nonneg)
  have nn: "0 \<le> sint stc"
    unfolding s using nonneg by (rule spec_clamped_size_nonneg)
  have w: "word_of_int ?c = stc"
    unfolding s [symmetric] by simp
  have "uint (scast stc :: 32 word) = sint stc"
    using nn by (rule uint_scast_nonneg) simp
  then have us: "uint stc = ?c" unfolding s by simp
  have u: "nat ?c = unat stc" unfolding us [symmetric] by simp
  obtain n_read bs s' where rd:
    "mid_read is (input_stream is) (replicate (unat stc) 0) 0 stc = (n_read, bs, s')"
    by (cases "mid_read is (input_stream is) (replicate (unat stc) 0) 0 stc") auto
  from input_stream_read_outcome [of read_size "is", folded stc_def, OF nn rd]
  obtain r where r: "input_stream_read is read_size = Inr r"
    "returned r = scast stc" "offset (context_after r) = offset is + returned r"
    "partial_read_log r =
       (if stc \<noteq> ucast read_size \<or> stc \<noteq> n_read
        then Some (read_size, stc, n_read) else None)"
    by blast
  have ret: "uint (returned r) = ?c"
    unfolding r(2) s [symmetric] using nn wide by (rule uint_scast_nonneg)
  have lg: "partial_read_log r = Some (read_size, stc, n_read)" if "sint n_read < ?c"
  proof -
    from that have "sint n_read \<noteq> sint stc" unfolding s by simp
    then have "stc \<noteq> n_read" by auto
    then show ?thesis unfolding r(4) by simp
  qed
  show ?thesis
    unfolding w u using rd r(1) ret r(3) lg by blast
qed

text \<open>
  On the stream that hands over three bytes per \<^verbatim>\<open>read\<close>, a request of ten bytes with
  twelve available returns 10 and logs the partial read with \<open>Read=3\<close>: the returned
  count exceeds the bytes obtained from the stream, the rest of the output being the
  zeros of the fresh array.
\<close>

theorem input_stream_read_returns_clamped_size_witness:
  "0 \<le> sint (mid_available trickle_stream (input_stream trickle_stream))
   \<and> 32 \<le> LENGTH(64)
   \<and> spec_clamped_size (10 :: 64 word) (mid_available trickle_stream (input_stream trickle_stream)) = 10
   \<and> map_sum id returned (input_stream_read trickle_stream 10) = Inr 10
   \<and> map_sum id (offset \<circ> context_after) (input_stream_read trickle_stream 10) = Inr 110
   \<and> map_sum id partial_read_log (input_stream_read trickle_stream 10) = Inr (Some (10, 10, 3))
   \<and> map_sum id output_bytes (input_stream_read trickle_stream 10)
       = Inr [1, 2, 3, 0, 0, 0, 0, 0, 0, 0]"
proof -
  have h1: "0 \<le> sint (mid_available trickle_stream (input_stream trickle_stream))"
    by code_simp
  have h2: "32 \<le> LENGTH(64)" by simp
  have e1: "map_sum id returned (input_stream_read trickle_stream 10) = Inr 10"
    by code_simp
  have e2: "map_sum id partial_read_log (input_stream_read trickle_stream 10) = Inr (Some (10, 10, 3))"
    by code_simp
  have e3: "map_sum id output_bytes (input_stream_read trickle_stream 10)
       = Inr [1, 2, 3, 0, 0, 0, 0, 0, 0, 0]"
    by code_simp
  have e4: "map_sum id (offset \<circ> context_after) (input_stream_read trickle_stream 10) = Inr 110"
    by code_simp
  from input_stream_read_returns_clamped_size [OF h1 h2, of 10]
  obtain r where r: "input_stream_read trickle_stream 10 = Inr r"
    "uint (returned r)
       = spec_clamped_size (10 :: 64 word) (mid_available trickle_stream (input_stream trickle_stream))"
    by blast
  from e1 r(1) have "returned r = 10" by simp
  with r(2) have c: "spec_clamped_size (10 :: 64 word)
       (mid_available trickle_stream (input_stream trickle_stream)) = 10"
    by simp
  from h1 h2 c e1 e2 e3 e4 show ?thesis by blast
qed





text \<open>
  Claim C1 says that the callback copies at most what \<^verbatim>\<open>available()\<close> reported, the
  request being clamped to \<open>min(requested_size, available)\<close>. With \<^verbatim>\<open>available()\<close>
  reporting -1 and a request of ten bytes the clamp of the specification is -1, and
  the callback copies ten bytes to the output and returns 10.
\<close>

theorem input_stream_read_exceeds_negative_available:
  "sint (mid_available negative_stream (input_stream negative_stream)) = - 1
   \<and> spec_clamped_size (10 :: 64 word) (mid_available negative_stream (input_stream negative_stream)) = - 1
   \<and> map_sum id returned (input_stream_read negative_stream 10) = Inr 10
   \<and> map_sum id output_bytes (input_stream_read negative_stream 10)
       = Inr [0, 0, 0, 0, 0, 0, 0, 0, 0, 0]"
  by code_simp

text \<open>
  At that input the count returned is above what \<^verbatim>\<open>available()\<close> reported.
\<close>

theorem input_stream_read_exceeds_negative_available_witness:
  "map_sum id returned (input_stream_read negative_stream 10) = Inr 10
   \<and> sint (mid_available negative_stream (input_stream negative_stream)) < 10"
  using input_stream_read_exceeds_negative_available by simp

section \<open>The eof callbacks\<close>

lemma input_stream_eof_repeat:
  "((snd \<circ> input_stream_eof) ^^ n) is = is"
  by (induction n) (simp_all add: input_stream_eof_def)

lemma asset_is_eof_repeat:
  "((snd \<circ> asset_is_eof ndk) ^^ n) ctx = ctx"
  by (induction n) (simp_all add: asset_is_eof_def)

text \<open>
  Claim C7. The eof callback of a stream origin returns true exactly when
  \<^verbatim>\<open>available()\<close> reports a value at most 0, that of an asset origin exactly when the
  remaining length is at most 0; each leaves its context as it found it, and after
  any number of eof calls a further one returns the same value.
\<close>

theorem eof_pure_predicate:
  "input_stream_eof is = (sint (mid_available is (input_stream is)) \<le> 0, is)
   \<and> asset_is_eof ndk ctx = (sint (AAsset_getRemainingLength64 ndk ctx) \<le> 0, ctx)
   \<and> input_stream_eof (((snd \<circ> input_stream_eof) ^^ n) is) = input_stream_eof is
   \<and> asset_is_eof ndk (((snd \<circ> asset_is_eof ndk) ^^ n) ctx) = asset_is_eof ndk ctx"
  by (simp add: input_stream_eof_repeat asset_is_eof_repeat)
     (simp add: input_stream_eof_def asset_is_eof_def word_sle_eq)

theorem eof_pure_predicate_witness:
  "input_stream_eof trickle_stream = (False, trickle_stream)
   \<and> input_stream_eof negative_stream = (True, negative_stream)
   \<and> asset_is_eof example_ndk 1000 = (True, 1000)
   \<and> asset_is_eof example_ndk 10 = (False, 10)
   \<and> input_stream_eof (((snd \<circ> input_stream_eof) ^^ 3) trickle_stream) = input_stream_eof trickle_stream
   \<and> asset_is_eof example_ndk (((snd \<circ> asset_is_eof example_ndk) ^^ 3) 10) = asset_is_eof example_ndk 10"
proof -
  have a: "sint (mid_available trickle_stream (input_stream trickle_stream)) \<le> 0 \<longleftrightarrow> False"
    by code_simp
  have b: "sint (mid_available negative_stream (input_stream negative_stream)) \<le> 0 \<longleftrightarrow> True"
    by code_simp
  have c: "sint (AAsset_getRemainingLength64 example_ndk 1000) \<le> 0 \<longleftrightarrow> True"
    by code_simp
  have d: "sint (AAsset_getRemainingLength64 example_ndk 10) \<le> 0 \<longleftrightarrow> False"
    by code_simp
  show ?thesis
    using eof_pure_predicate [of trickle_stream example_ndk 10 3]
      eof_pure_predicate [of negative_stream example_ndk 1000 3]
    unfolding a b c d by simp
qed

section \<open>Opening an asset origin\<close>

text \<open>
  Claim C6. For every initialisation from an asset where the origin cannot be opened
  (the asset manager is unavailable, or it is available and the asset path does not
  open), \<^verbatim>\<open>initContextFromAsset\<close> returns the null handle and makes no call to the
  engine's \<^verbatim>\<open>whisper_init_with_params\<close>.
\<close>

theorem initContextFromAsset_unopened_origin:
  assumes "AAssetManager_fromJava ndk assetManager = None
           \<or> (\<exists>m. AAssetManager_fromJava ndk assetManager = Some m
                  \<and> AAssetManager_open ndk m asset_path AASSET_MODE_STREAMING = None)"
  shows "init_context (initContextFromAsset ndk eng assetManager asset_path) = None
         \<and> init_calls (initContextFromAsset ndk eng assetManager asset_path) = []"
  using assms
  by (auto simp: initContextFromAsset_def whisper_init_from_asset_def Let_def)

text \<open>When the asset opens, the engine is called once, with the asset as loader context.\<close>

lemma initContextFromAsset_opened_origin:
  assumes "AAssetManager_fromJava ndk assetManager = Some m"
    and "AAssetManager_open ndk m asset_path AASSET_MODE_STREAMING = Some asset"
  shows "init_calls (initContextFromAsset ndk eng assetManager asset_path)
           = [Call_whisper_init_with_params asset]"
  using assms
  by (simp add: initContextFromAsset_def whisper_init_from_asset_def Let_def)

text \<open>
  The example asset manager is unavailable from the Java object \<open>False\<close>, and from
  \<open>True\<close> it does not open the path \<^verbatim>\<open>missing.bin\<close>.
\<close>

theorem initContextFromAsset_unopened_origin_witness:
  "AAssetManager_fromJava example_ndk False = None
   \<and> init_context (initContextFromAsset example_ndk example_init_engine False ''models/ggml-tiny.bin'') = None
   \<and> init_calls (initContextFromAsset example_ndk example_init_engine False ''models/ggml-tiny.bin'') = []
   \<and> AAssetManager_fromJava example_ndk True = Some ()
   \<and> AAssetManager_open example_ndk () ''missing.bin'' AASSET_MODE_STREAMING = None
   \<and> init_context (initContextFromAsset example_ndk example_init_engine True ''missing.bin'') = None
   \<and> init_calls (initContextFromAsset example_ndk example_init_engine True ''missing.bin'') = []"
proof -
  have a: "AAssetManager_fromJava example_ndk False = None"
    by (simp add: example_ndk_def)
  have b: "AAssetManager_fromJava example_ndk True = Some ()"
    by (simp add: example_ndk_def)
  have c: "AAssetManager_open example_ndk () ''missing.bin'' AASSET_MODE_STREAMING = None"
    by (simp add: example_ndk_def)
  from b c have d: "AAssetManager_fromJava example_ndk True = None
           \<or> (\<exists>m. AAssetManager_fromJava example_ndk True = Some m
                  \<and> AAssetManager_open example_ndk m ''missing.bin'' AASSET_MODE_STREAMING = None)"
    by simp
  from a have e: "AAssetManager_fromJava example_ndk False = None
           \<or> (\<exists>m. AAssetManager_fromJava example_ndk False = Some m
                  \<and> AAssetManager_open example_ndk m ''models/ggml-tiny.bin'' AASSET_MODE_STREAMING = None)"
    by simp
  from initContextFromAsset_unopened_origin [OF e, of example_init_engine]
    initContextFromAsset_unopened_origin [OF d, of example_init_engine] a b c
  show ?thesis by blast
qed

section \<open>The diagnostic loop\<close>



section \<open>The calls of fullTranscribe\<close>

lemma full_params_of_append:
  "full_params_of (cs @ ds) = full_params_of cs @ full_params_of ds"
  by (induction cs rule: full_params_of.induct) simp_all

lemma full_params_of_segment_texts:
  "full_params_of (map (\<lambda>i. Call_whisper_full_get_segment_text (f i)) ns) = []"
  by (induction ns) simp_all

text \<open>
  The parameter set of the source, as one value, and what the call leaves in the
  engine: the context \<^verbatim>\<open>whisper_full\<close> returns on that parameter set and the whole
  buffer, after \<^verbatim>\<open>whisper_print_timings\<close> when the status is 0.
\<close>

lemma fullTranscribe_params:
  "full_params_of (ft_calls (fullTranscribe is_copy eng context num_threads audio_data))
     = [(whisper_full_default_params eng WHISPER_SAMPLING_GREEDY)
            \<lparr> print_realtime := False,
              print_progress := False,
              print_timestamps := True,
              print_special := False,
              translate := False,
              language := ''en'',
              n_threads := num_threads,
              offset_ms := 0,
              no_context := True,
              single_segment := False,
              entropy_thold := 2.8,
              logprob_thold := - 1.5,
              no_speech_thold := 0.3 \<rparr>]"
  unfolding fullTranscribe_def Let_def
  by (simp add: full_params_of_append full_params_of_segment_texts split: prod.splits)

lemma fullTranscribe_context:
  "ft_context (fullTranscribe is_copy eng context num_threads audio_data)
     = (case whisper_full eng (whisper_reset_timings eng context)
               ((whisper_full_default_params eng WHISPER_SAMPLING_GREEDY)
                  \<lparr> print_realtime := False,
                    print_progress := False,
                    print_timestamps := True,
                    print_special := False,
                    translate := False,
                    language := ''en'',
                    n_threads := num_threads,
                    offset_ms := 0,
                    no_context := True,
                    single_segment := False,
                    entropy_thold := 2.8,
                    logprob_thold := - 1.5,
                    no_speech_thold := 0.3 \<rparr>)
               audio_data (int (length audio_data)) of
          (status, context2) \<Rightarrow>
            if status = 0 then whisper_print_timings eng context2 else context2)"
  unfolding fullTranscribe_def Let_def
  by (simp add: GetFloatArrayElements_def split: prod.splits)


section \<open>The parameter set of fullTranscribe\<close>

text \<open>
  Claim C2. For every audio buffer and every thread count, the parameter set that
  \<^verbatim>\<open>fullTranscribe\<close> gives to \<^verbatim>\<open>whisper_full\<close> has entropy threshold 2.8,
  log-probability threshold -1.5, no-speech threshold 0.3, language \<^verbatim>\<open>en\<close> and translate
  false, whatever the engine's defaults and the buffer are: the engine context the call
  leaves is the one \<^verbatim>\<open>whisper_full\<close> returns on that parameter set, for every engine.
\<close>

theorem fullTranscribe_tuned_parameters:
  "\<exists>p. entropy_thold p = 2.8 \<and> logprob_thold p = - 1.5 \<and> no_speech_thold p = 0.3
       \<and> language p = ''en'' \<and> translate p = False
       \<and> full_params_of (ft_calls (fullTranscribe is_copy eng context num_threads audio_data)) = [p]
       \<and> ft_context (fullTranscribe is_copy eng context num_threads audio_data)
           = (case whisper_full eng (whisper_reset_timings eng context) p
                     audio_data (int (length audio_data)) of
                (status, context2) \<Rightarrow>
                  if status = 0 then whisper_print_timings eng context2 else context2)"
  unfolding fullTranscribe_params fullTranscribe_context
  by (intro exI conjI; (rule refl)?) simp_all

text \<open>
  The recording engine, whose defaults are 2.4, -1.0, 0.6, \<^verbatim>\<open>auto\<close> and translate true,
  receives the tuned values, on a buffer of two samples and on the empty buffer.
\<close>

theorem fullTranscribe_tuned_parameters_witness:
  "map (\<lambda>(p, xs, n). (entropy_thold p, logprob_thold p, no_speech_thold p, language p, translate p))
     (ft_context (fullTranscribe False recording_engine [] 4 [0.5, - 0.25]))
   = [(2.8, - 1.5, 0.3, ''en'', False)]
   \<and> map (\<lambda>(p, xs, n). (entropy_thold p, logprob_thold p, no_speech_thold p, language p, translate p))
     (ft_context (fullTranscribe True recording_engine [] 1 []))
   = [(2.8, - 1.5, 0.3, ''en'', False)]
   \<and> entropy_thold (whisper_full_default_params recording_engine WHISPER_SAMPLING_GREEDY) = 2.4
   \<and> language (whisper_full_default_params recording_engine WHISPER_SAMPLING_GREEDY) = ''auto''"
proof -
  from fullTranscribe_tuned_parameters [of False recording_engine "[]" 4 "[0.5, - 0.25]"]
  have a: "map (\<lambda>(p, xs, n). (entropy_thold p, logprob_thold p, no_speech_thold p, language p, translate p))
     (ft_context (fullTranscribe False recording_engine [] 4 [0.5, - 0.25]))
   = [(2.8, - 1.5, 0.3, ''en'', False)]"
    by (auto simp: recording_engine_def)
  from fullTranscribe_tuned_parameters [of True recording_engine "[]" 1 "[]"]
  have b: "map (\<lambda>(p, xs, n). (entropy_thold p, logprob_thold p, no_speech_thold p, language p, translate p))
     (ft_context (fullTranscribe True recording_engine [] 1 []))
   = [(2.8, - 1.5, 0.3, ''en'', False)]"
    by (auto simp: recording_engine_def)
  show ?thesis using a b by (simp add: recording_engine_def)
qed

text \<open>
  Claim C3, as amended. For every audio buffer, the parameter set that
  \<^verbatim>\<open>fullTranscribe\<close> gives to \<^verbatim>\<open>whisper_full\<close> has the progress print flag and the
  real-time print flag false and the timestamp print flag true.
\<close>

theorem fullTranscribe_print_flags:
  "\<exists>p. print_progress p = False \<and> print_realtime p = False \<and> print_timestamps p = True
       \<and> full_params_of (ft_calls (fullTranscribe is_copy eng context num_threads audio_data)) = [p]
       \<and> ft_context (fullTranscribe is_copy eng context num_threads audio_data)
           = (case whisper_full eng (whisper_reset_timings eng context) p
                     audio_data (int (length audio_data)) of
                (status, context2) \<Rightarrow>
                  if status = 0 then whisper_print_timings eng context2 else context2)"
  unfolding fullTranscribe_params fullTranscribe_context
  by (intro exI conjI; (rule refl)?) simp_all

text \<open>
  The recording engine, whose defaults are the opposite of each of the three flags,
  receives them as assigned.
\<close>

theorem fullTranscribe_print_flags_witness:
  "map (\<lambda>(p, xs, n). (print_progress p, print_realtime p, print_timestamps p))
     (ft_context (fullTranscribe False recording_engine [] 4 [0.5, - 0.25]))
   = [(False, False, True)]
   \<and> print_progress (whisper_full_default_params recording_engine WHISPER_SAMPLING_GREEDY) = True
   \<and> print_timestamps (whisper_full_default_params recording_engine WHISPER_SAMPLING_GREEDY) = False"
proof -
  from fullTranscribe_print_flags [of False recording_engine "[]" 4 "[0.5, - 0.25]"]
  have a: "map (\<lambda>(p, xs, n). (print_progress p, print_realtime p, print_timestamps p))
     (ft_context (fullTranscribe False recording_engine [] 4 [0.5, - 0.25]))
   = [(False, False, True)]"
    by (auto simp: recording_engine_def)
  show ?thesis using a by (simp add: recording_engine_def)
qed

text \<open>
  Claim C3 as stated says both print flags are false. On a buffer of two samples the
  parameter set the recording engine receives has the timestamp print flag true.
\<close>

theorem fullTranscribe_prints_timestamps:
  "map (print_timestamps \<circ> fst) (ft_context (fullTranscribe False recording_engine [] 4 [0.5, - 0.25]))
     = [True]
   \<and> map (print_progress \<circ> fst) (ft_context (fullTranscribe False recording_engine [] 4 [0.5, - 0.25]))
     = [False]"
  by (simp add: fullTranscribe_context recording_engine_def)

section \<open>Rounding to binary32\<close>

















section \<open>Sums of quiet samples\<close>












section \<open>Sums of loud samples\<close>









lemma foldl_float_add_fixed:
  assumes "float_add S v = S"
  shows "foldl float_add S (replicate m v) = S"
  using assms by (induction m) simp_all

text \<open>
  Without a bound on the length a loud buffer can be flagged: after one sample of
  \<open>2 ^ 18\<close> the float sum no longer grows by samples of about 0.01, and over
  \<open>2 ^ 29\<close> samples the quotient falls below the threshold.
\<close>

lemma long_loud_buffer:
  "0.01 \<le> spec_mean_abs_amplitude (262144 # replicate 536870911 (10737419 / 2 ^ 30))
   \<and> float_less
        (binary32_mean_abs_amplitude (262144 # replicate 536870911 (10737419 / 2 ^ 30)))
        (round_binary32 0.001)"
proof -
  let ?v = "10737419 / 2 ^ 30 :: real"
  have s0: "float_add (Finite 0) 262144 = Finite 262144" by code_simp
  have s1: "float_add (Finite 262144) (10737419 / 2 ^ 30) = Finite 262144" by code_simp
  have s2: "float_of_int 536870912 = 536870912" by code_simp
  have s3: "float_div (Finite 262144) 536870912 = Finite (1 / 2 ^ 11)" by code_simp
  have thr: "round_binary32 0.001 = 8589935 / 2 ^ 33" by code_simp
  have m: "map abs (262144 # replicate 536870911 ?v) = 262144 # replicate 536870911 ?v"
    by simp
  have "foldl float_add (Finite 0) (262144 # replicate 536870911 ?v)
          = foldl float_add (Finite 262144) (replicate 536870911 ?v)"
    unfolding foldl_Cons s0 ..
  also have "\<dots> = Finite 262144" using s1 by (rule foldl_float_add_fixed)
  finally have sum: "foldl float_add (Finite 0) (262144 # replicate 536870911 ?v) = Finite 262144" .
  have len: "int (length (262144 # replicate 536870911 ?v)) = 536870912" by simp
  have "binary32_mean_abs_amplitude (262144 # replicate 536870911 ?v) = Finite (1 / 2 ^ 11)"
    unfolding binary32_mean_abs_amplitude_def m sum len s2 s3 ..
  moreover have "(1 :: real) / 2 ^ 11 < 8589935 / 2 ^ 33" by simp
  moreover have "0.01 \<le> spec_mean_abs_amplitude (262144 # replicate 536870911 ?v)"
    unfolding spec_mean_abs_amplitude_def m by (simp add: sum_list_replicate)
  ultimately show ?thesis unfolding thr by simp
qed

section \<open>The silence warning\<close>







section \<open>The range reported by the diagnostics\<close>

text \<open>
  The loop starts \<^verbatim>\<open>min_val\<close> and \<^verbatim>\<open>max_val\<close> at 0 and only ever lowers the one and
  raises the other, so the reported range always holds 0.
\<close>

lemma min_val_foldl_le:
  "min_val (foldl analyze_sample st xs) \<le> min_val st"
proof (induction xs arbitrary: st)
  case Nil
  show ?case by simp
next
  case (Cons x xs)
  have "min_val (foldl analyze_sample (analyze_sample st x) xs) \<le> min_val (analyze_sample st x)"
    by (rule Cons.IH)
  also have "\<dots> \<le> min_val st" by (simp add: analyze_sample_def)
  finally show ?case by simp
qed

lemma max_val_foldl_ge:
  "max_val st \<le> max_val (foldl analyze_sample st xs)"
proof (induction xs arbitrary: st)
  case Nil
  show ?case by simp
next
  case (Cons x xs)
  have "max_val st \<le> max_val (analyze_sample st x)" by (simp add: analyze_sample_def)
  also have "\<dots> \<le> max_val (foldl analyze_sample (analyze_sample st x) xs)"
    by (rule Cons.IH)
  finally show ?case by simp
qed

lemma analyze_audio_range_holds_0:
  "min_val (analyze_audio xs) \<le> 0 \<and> 0 \<le> max_val (analyze_audio xs)"
  using min_val_foldl_le [of "\<lparr> min_val = 0, max_val = 0, sum_abs = Finite 0, non_zero = 0 \<rparr>" xs]
    max_val_foldl_ge [of "\<lparr> min_val = 0, max_val = 0, sum_abs = Finite 0, non_zero = 0 \<rparr>" xs]
  by (simp add: analyze_audio_def)

text \<open>
  Claim C5 says that the diagnostics report the minimum and the maximum sample of the
  buffer. On the buffer of the two samples 0.5 and 0.75 the minimum sample is 0.5,
  and the loop's \<^verbatim>\<open>min_val\<close>, logged as the lower end of the range, is 0. On the
  buffer of -0.5 and -0.75 the maximum sample is -0.5 and \<^verbatim>\<open>max_val\<close> is 0.
\<close>

theorem fullTranscribe_range_of_positive_buffer:
  "Min (set [0.5, 0.75 :: real]) = 0.5
   \<and> min_val (analyze_audio [0.5, 0.75]) = 0
   \<and> ft_log (fullTranscribe False example_engine 0 4 [0.5, 0.75]) ! 2
       = LOGI ''  Range: [%.6f, %.6f]'' [ArgFloat (Finite 0), ArgFloat (Finite 0.75)]
   \<and> Max (set [- 0.5, - 0.75 :: real]) = - 0.5
   \<and> max_val (analyze_audio [- 0.5, - 0.75]) = 0"
  by (simp add: analyze_audio_def analyze_sample_def fullTranscribe_def Let_def
      GetFloatArrayElements_def example_engine_def)

section \<open>The caller's array\<close>

text \<open>
  Claim C8. For every call of \<^verbatim>\<open>fullTranscribe\<close>, whether the runtime handed out a copy
  of the array's elements or the elements themselves, the caller's array holds the
  same samples when the call returns as when it was made.
\<close>

theorem fullTranscribe_leaves_audio_data:
  "ft_audio_data (fullTranscribe is_copy eng context num_threads audio_data) = audio_data"
  unfolding fullTranscribe_def Let_def
  by (simp add: ReleaseFloatArrayElements_def GetFloatArrayElements_def split: prod.splits)

text \<open>With the example engine, for a copied and for a pinned array.\<close>

theorem fullTranscribe_leaves_audio_data_witness:
  "ft_audio_data (fullTranscribe True example_engine 0 4 [0.5, - 0.25]) = [0.5, - 0.25]
   \<and> ft_audio_data (fullTranscribe False example_engine 0 4 [0.5, - 0.25]) = [0.5, - 0.25]
   \<and> ft_context (fullTranscribe False example_engine 0 4 [0.5, - 0.25]) = 1"
  using fullTranscribe_leaves_audio_data [of True example_engine 0 4 "[0.5, - 0.25]"]
    fullTranscribe_leaves_audio_data [of False example_engine 0 4 "[0.5, - 0.25]"]
  by (simp add: fullTranscribe_context example_engine_def)

end
